theory Spec2Isabelle
  imports Main
begin

section \<open>The manager bootstrap of cluster-api (main.go)\<close>

text \<open>
  The program is one Go file: it declares twelve command-line flags, optionally starts a
  profiler endpoint in a goroutine, builds a controller-runtime manager, registers health
  checks, then either five reconcilers or thirteen webhooks, and finally starts the manager.
  Everything it calls in controller-runtime, client-go, klog and the packages
  \<open>controllers\<close>, \<open>api/v1alpha2\<close> and \<open>api/v1alpha3\<close> is external to the file. The model keeps
  those calls as calls: whether one of them fails is read from an environment \<open>env\<close>, and
  what main.go does with the outcome is written out branch by branch.
\<close>

subsection \<open>Values handed to and received from the libraries\<close>

text \<open>A Go \<open>error\<close> value, with its message.\<close>

datatype error = Err string

text \<open>
  Opaque handles of the libraries: a \<open>*rest.Config\<close>, a \<open>cache.Cache\<close>, a \<open>client.Options\<close>,
  the client that \<open>client.New\<close> returns and the \<open>client.Client\<close> that \<open>mgr.GetClient()\<close>
  returns. The number only tells two handles apart.
\<close>

datatype rest_Config = RestConfig nat
datatype cache_Cache = Cache nat
datatype client_Options = ClientOptions nat
datatype direct_client = DirectClient nat
datatype client_Client = ManagerClient nat

text \<open>
  \<open>client.DelegatingClient\<close> is a struct of three embedded interfaces, \<open>Reader\<close>, \<open>Writer\<close> and
  \<open>StatusClient\<close>. The composite literal in \<open>newClientFunc\<close> sets each of them.
\<close>

record ('r, 'w, 's) DelegatingClient =
  Reader :: 'r
  Writer :: 'w
  StatusClient :: 's

type_synonym split_client = "(cache_Cache, direct_client, direct_client) DelegatingClient"

text \<open>
  Go promotes the methods of an embedded interface to the struct: a call of a method of
  \<open>client.Reader\<close> on a \<open>DelegatingClient\<close> is a call on its \<open>Reader\<close> field, and likewise for
  the other two. The operations are those of the three interfaces.
\<close>

datatype client_op = Get | List | Create | Delete | Update | Patch | DeleteAllOf | Status

datatype ('r, 'w, 's) receiver = ByReader 'r | ByWriter 'w | ByStatusClient 's

fun promoted :: "('r, 'w, 's) DelegatingClient \<Rightarrow> client_op \<Rightarrow> ('r, 'w, 's) receiver" where
  "promoted d Get = ByReader (Reader d)"
| "promoted d List = ByReader (Reader d)"
| "promoted d Create = ByWriter (Writer d)"
| "promoted d Delete = ByWriter (Writer d)"
| "promoted d Update = ByWriter (Writer d)"
| "promoted d Patch = ByWriter (Writer d)"
| "promoted d DeleteAllOf = ByWriter (Writer d)"
| "promoted d Status = ByStatusClient (StatusClient d)"

subsection \<open>newClientFunc\<close>

text \<open>
  \<open>newClientFunc(cache, config, options)\<close> calls \<open>client.New(config, options)\<close>, returns its
  error if there is one, and otherwise returns the \<open>DelegatingClient\<close> that reads from the
  cache and writes through the new client. \<open>client.New\<close> is the library's constructor; it is
  the first argument here.
\<close>

definition newClientFunc ::
  "('cfg \<Rightarrow> 'opts \<Rightarrow> error + 'cl) \<Rightarrow> 'cache \<Rightarrow> 'cfg \<Rightarrow> 'opts
    \<Rightarrow> error + ('cache, 'cl, 'cl) DelegatingClient" where
  "newClientFunc client_New cache config options =
     (case client_New config options of
        Inl err \<Rightarrow> Inl err
      | Inr c \<Rightarrow> Inr \<lparr>Reader = cache, Writer = c, StatusClient = c\<rparr>)"

subsection \<open>Flags\<close>

text \<open>
  The twelve package-level flag variables. Go's \<open>int\<close> and \<open>time.Duration\<close> (nanoseconds) are
  modelled as \<open>int\<close>: main.go does no arithmetic on them, it only compares \<open>webhookPort\<close>
  with zero and passes the others on.
\<close>

record flags =
  metricsAddr :: string
  enableLeaderElection :: bool
  watchNamespace :: string
  profilerAddress :: string
  clusterConcurrency :: int
  machineConcurrency :: int
  machineSetConcurrency :: int
  machineDeploymentConcurrency :: int
  machinePoolConcurrency :: int
  syncPeriod :: int
  webhookPort :: int
  healthAddr :: string

text \<open>
  A command line that \<open>flag.Parse\<close> accepts, after the \<open>flag\<close> package has read it: for each
  flag the value given, or \<open>None\<close> when the flag does not occur. The fields are named after
  the flags: \<open>-metrics-addr\<close>, \<open>-enable-leader-election\<close>, \<open>-namespace\<close>,
  \<open>-profiler-address\<close>, \<open>-cluster-concurrency\<close>, \<open>-machine-concurrency\<close>,
  \<open>-machineset-concurrency\<close>, \<open>-machinedeployment-concurrency\<close>, \<open>-machinepool-concurrency\<close>,
  \<open>-sync-period\<close>, \<open>-webhook-port\<close>, \<open>-health-addr\<close>. Lexing the arguments and parsing
  numbers and durations is the \<open>flag\<close> package's work, and a command line it rejects ends
  the process inside \<open>flag.Parse\<close>, before any statement below.
\<close>

record command_line =
  metrics_addr :: "string option"
  enable_leader_election :: "bool option"
  namespace :: "string option"
  profiler_address :: "string option"
  cluster_concurrency :: "int option"
  machine_concurrency :: "int option"
  machineset_concurrency :: "int option"
  machinedeployment_concurrency :: "int option"
  machinepool_concurrency :: "int option"
  sync_period :: "int option"
  webhook_port :: "int option"
  health_addr :: "string option"

text \<open>
  \<open>flag.StringVar(&p, name, value, usage)\<close> and its siblings: the variable holds \<open>value\<close>
  unless the command line sets the flag.
\<close>

definition flag_Var :: "'a option \<Rightarrow> 'a \<Rightarrow> 'a" where
  "flag_Var given dflt = (case given of None \<Rightarrow> dflt | Some v \<Rightarrow> v)"

definition Minute :: int where
  "Minute = 60 * 1000000000"

text \<open>The flag declarations at the head of \<open>main\<close>, followed by \<open>flag.Parse()\<close>.\<close>

definition flag_Parse :: "command_line \<Rightarrow> flags" where
  "flag_Parse cl =
     \<lparr>metricsAddr = flag_Var (metrics_addr cl) '':8080'',
      enableLeaderElection = flag_Var (enable_leader_election cl) False,
      watchNamespace = flag_Var (namespace cl) '''',
      profilerAddress = flag_Var (profiler_address cl) '''',
      clusterConcurrency = flag_Var (cluster_concurrency cl) 10,
      machineConcurrency = flag_Var (machine_concurrency cl) 10,
      machineSetConcurrency = flag_Var (machineset_concurrency cl) 10,
      machineDeploymentConcurrency = flag_Var (machinedeployment_concurrency cl) 10,
      machinePoolConcurrency = flag_Var (machinepool_concurrency cl) 10,
      syncPeriod = flag_Var (sync_period cl) (10 * Minute),
      webhookPort = flag_Var (webhook_port cl) 0,
      healthAddr = flag_Var (health_addr cl) '':9440''\<rparr>"

text \<open>The command line with no flag on it.\<close>

definition no_flags :: command_line where
  "no_flags =
     \<lparr>metrics_addr = None, enable_leader_election = None, namespace = None,
      profiler_address = None, cluster_concurrency = None, machine_concurrency = None,
      machineset_concurrency = None, machinedeployment_concurrency = None,
      machinepool_concurrency = None, sync_period = None, webhook_port = None,
      health_addr = None\<rparr>"

subsection \<open>What main.go passes to the manager\<close>

text \<open>
  \<open>init()\<close> adds three groups of types to the package-level \<open>scheme\<close>, in this order, and
  discards the error of each \<open>AddToScheme\<close>.
\<close>

datatype scheme_group = Clientgoscheme | Clusterv1alpha2 | Clusterv1alpha3

definition scheme :: "scheme_group list" where
  "scheme = [Clientgoscheme, Clusterv1alpha2, Clusterv1alpha3]"

text \<open>The fields of \<open>ctrl.Options\<close> that \<open>main\<close> sets.\<close>

record Options =
  Scheme :: "scheme_group list"
  MetricsBindAddress :: string
  LeaderElection :: bool
  LeaderElectionID :: string
  Namespace :: string
  SyncPeriod :: int
  NewClient :: "cache_Cache \<Rightarrow> rest_Config \<Rightarrow> client_Options \<Rightarrow> error + split_client"
  Port :: int
  HealthProbeBindAddress :: string

text \<open>\<open>controller.Options\<close> and the function \<open>concurrency\<close>.\<close>

record controller_Options =
  MaxConcurrentReconciles :: int

definition concurrency :: "int \<Rightarrow> controller_Options" where
  "concurrency c = \<lparr>MaxConcurrentReconciles = c\<rparr>"

text \<open>
  The five reconciler structs of package \<open>controllers\<close>. Each literal in \<open>setupReconcilers\<close>
  sets \<open>Client\<close> and \<open>Log\<close>; the logger is the list of names given to \<open>WithName\<close>.
\<close>

datatype reconciler_type =
    ClusterReconciler
  | MachineReconciler
  | MachineSetReconciler
  | MachineDeploymentReconciler
  | MachinePoolReconciler

record reconciler =
  rtype :: reconciler_type
  Client :: client_Client
  Log :: "string list"

text \<open>
  The API types whose \<open>SetupWebhookWithManager\<close> is called: a package (\<open>clusterv1alpha2\<close> or
  \<open>clusterv1alpha3\<close>) and a type name.
\<close>

datatype api_version = V1alpha2 | V1alpha3

datatype api_type =
    Cluster | ClusterList
  | Machine | MachineList
  | MachineSet | MachineSetList
  | MachineDeployment | MachineDeploymentList
  | MachinePool

text \<open>\<open>healthz.Ping\<close>, the only checker used.\<close>

datatype checker = Ping

subsection \<open>The process: log, goroutines, manager\<close>

text \<open>
  A line written with \<open>klog.Info\<close>/\<open>klog.Infof\<close>, or with \<open>setupLog.Info\<close>/\<open>setupLog.Error\<close>
  (message and key-value pairs).
\<close>

datatype log_entry =
    Klog_Info string
  | Log_Info string "(string \<times> string) list"
  | Log_Error error string "(string \<times> string) list"

text \<open>The calls into the libraries that can fail, with their arguments.\<close>

datatype call =
    Call_GetConfig
  | Call_NewManager rest_Config Options
  | Call_AddReadyzCheck string checker
  | Call_AddHealthzCheck string checker
  | Call_SetupWithManager reconciler controller_Options
  | Call_SetupWebhookWithManager api_version api_type
  | Call_Start

text \<open>A goroutine started by a \<open>go\<close> statement: the profiler endpoint on an address.\<close>

datatype goroutine = Profiler string

text \<open>
  The state of the process. \<open>trace\<close> lists the library calls made so far, each with the error
  it returned. The other fields after \<open>goroutines\<close> are the manager: the options it was built
  with (\<open>None\<close> before \<open>ctrl.NewManager\<close> has succeeded) and what has been registered with it.
\<close>

record world =
  logged :: "log_entry list"
  goroutines :: "goroutine list"
  trace :: "(call \<times> error option) list"
  manager :: "Options option"
  readyzChecks :: "(string \<times> checker) list"
  healthzChecks :: "(string \<times> checker) list"
  controllers :: "(reconciler \<times> controller_Options) list"
  webhooks :: "(api_version \<times> api_type) list"

definition initial :: world where
  "initial =
     \<lparr>logged = [], goroutines = [], trace = [], manager = None, readyzChecks = [],
      healthzChecks = [], controllers = [], webhooks = []\<rparr>"

text \<open>
  How the process ends: \<open>os.Exit\<close> with a status, \<open>main\<close> returning (status 0), or \<open>mgr.Start\<close>
  never returning.
\<close>

datatype ending = Exit int | Returned | NoReturn

text \<open>
  The environment: everything the libraries decide. \<open>fails env s c\<close> is the error that call
  \<open>c\<close> returns when made in state \<open>s\<close> (\<open>None\<close> is Go's \<open>nil\<close>); \<open>kubeconfig\<close> is the config
  that \<open>GetConfig\<close> finds; \<open>Start_returns\<close> says whether \<open>mgr.Start\<close> ever returns;
  \<open>ListenAndServe\<close> is the error with which \<open>http.ListenAndServe\<close> returns on an address
  (\<open>None\<close> when it serves for ever: it never returns \<open>nil\<close>).
\<close>

record env =
  fails :: "world \<Rightarrow> call \<Rightarrow> error option"
  kubeconfig :: rest_Config
  GetClient :: client_Client
  client_New :: "rest_Config \<Rightarrow> client_Options \<Rightarrow> error + direct_client"
  Start_returns :: "world \<Rightarrow> bool"
  ListenAndServe :: "string \<Rightarrow> error option"

subsection \<open>The library calls\<close>

text \<open>
  A call is recorded in the trace with its result. When it succeeds its effect on the
  manager takes place; when it fails it leaves the manager as it was.
\<close>

definition lib_call :: "env \<Rightarrow> call \<Rightarrow> (world \<Rightarrow> world) \<Rightarrow> world \<Rightarrow> error option \<times> world" where
  "lib_call env c effect s =
     (case fails env s c of
        Some err \<Rightarrow> (Some err, s\<lparr>trace := trace s @ [(c, Some err)]\<rparr>)
      | None \<Rightarrow> (None, effect (s\<lparr>trace := trace s @ [(c, None)]\<rparr>)))"

definition ctrl_NewManager :: "env \<Rightarrow> rest_Config \<Rightarrow> Options \<Rightarrow> world \<Rightarrow> error option \<times> world" where
  "ctrl_NewManager env config opts =
     lib_call env (Call_NewManager config opts) (\<lambda>s. s\<lparr>manager := Some opts\<rparr>)"

definition AddReadyzCheck :: "env \<Rightarrow> string \<Rightarrow> checker \<Rightarrow> world \<Rightarrow> error option \<times> world" where
  "AddReadyzCheck env name chk =
     lib_call env (Call_AddReadyzCheck name chk)
       (\<lambda>s. s\<lparr>readyzChecks := readyzChecks s @ [(name, chk)]\<rparr>)"

definition AddHealthzCheck :: "env \<Rightarrow> string \<Rightarrow> checker \<Rightarrow> world \<Rightarrow> error option \<times> world" where
  "AddHealthzCheck env name chk =
     lib_call env (Call_AddHealthzCheck name chk)
       (\<lambda>s. s\<lparr>healthzChecks := healthzChecks s @ [(name, chk)]\<rparr>)"

definition SetupWithManager ::
  "env \<Rightarrow> reconciler \<Rightarrow> controller_Options \<Rightarrow> world \<Rightarrow> error option \<times> world" where
  "SetupWithManager env r opts =
     lib_call env (Call_SetupWithManager r opts)
       (\<lambda>s. s\<lparr>controllers := controllers s @ [(r, opts)]\<rparr>)"

definition SetupWebhookWithManager ::
  "env \<Rightarrow> api_version \<Rightarrow> api_type \<Rightarrow> world \<Rightarrow> error option \<times> world" where
  "SetupWebhookWithManager env v t =
     lib_call env (Call_SetupWebhookWithManager v t)
       (\<lambda>s. s\<lparr>webhooks := webhooks s @ [(v, t)]\<rparr>)"

definition mgr_Start :: "env \<Rightarrow> world \<Rightarrow> error option \<times> world" where
  "mgr_Start env = lib_call env Call_Start (\<lambda>s. s)"

subsection \<open>Statements that may end the process\<close>

text \<open>
  A statement maps the state to \<open>Inr\<close> of the next state, or to \<open>Inl\<close> of how the process
  ended and the state it ended in. A block runs its statements in order and stops at the
  first that ends the process.
\<close>

type_synonym stmt = "world \<Rightarrow> (ending \<times> world) + world"

fun block :: "stmt list \<Rightarrow> stmt" where
  "block [] s = Inr s"
| "block (f # fs) s = (case f s of Inl x \<Rightarrow> Inl x | Inr s' \<Rightarrow> block fs s')"

text \<open>
  The idiom \<open>if err := call; err != nil { setupLog.Error(err, msg, kvs...); os.Exit(1) }\<close>.
\<close>

definition exit_on_error ::
  "(world \<Rightarrow> error option \<times> world) \<Rightarrow> string \<Rightarrow> (string \<times> string) list \<Rightarrow> stmt" where
  "exit_on_error f msg kvs s =
     (case f s of
        (Some err, s') \<Rightarrow> Inl (Exit 1, s'\<lparr>logged := logged s' @ [Log_Error err msg kvs]\<rparr>)
      | (None, s') \<Rightarrow> Inr s')"

text \<open>
  \<open>ctrl.GetConfigOrDie()\<close> of controller-runtime: it returns the config, or logs
  "unable to get kubeconfig" and calls \<open>os.Exit(1)\<close>.
\<close>

definition GetConfigOrDie :: "env \<Rightarrow> world \<Rightarrow> (ending \<times> world) + (rest_Config \<times> world)" where
  "GetConfigOrDie env s =
     (case lib_call env Call_GetConfig (\<lambda>s. s) s of
        (Some err, s') \<Rightarrow>
          Inl (Exit 1, s'\<lparr>logged := logged s' @ [Log_Error err ''unable to get kubeconfig'' []]\<rparr>)
      | (None, s') \<Rightarrow> Inr (kubeconfig env, s'))"

subsection \<open>main.go\<close>

text \<open>
  The profiler: when \<open>profilerAddress\<close> is not empty, one line is logged and the goroutine
  is started. \<open>main\<close> goes on at once; it never waits for the goroutine or reads its result.
\<close>

definition start_profiler :: "flags \<Rightarrow> stmt" where
  "start_profiler f s =
     (if profilerAddress f \<noteq> '''' then
        Inr (s\<lparr>logged := logged s @
                 [Klog_Info (''Profiler listening for requests at '' @ profilerAddress f)],
               goroutines := goroutines s @ [Profiler (profilerAddress f)]\<rparr>)
      else Inr s)"

text \<open>
  The body of the goroutine, \<open>klog.Info(http.ListenAndServe(profilerAddress, nil))\<close>: how it
  ends the process (\<open>None\<close>: it does not) and what it logs. While the endpoint serves,
  nothing is logged; when \<open>ListenAndServe\<close> returns, its error is printed at severity Info.
\<close>

fun run_goroutine :: "env \<Rightarrow> goroutine \<Rightarrow> ending option \<times> log_entry list" where
  "run_goroutine env (Profiler addr) =
     (case ListenAndServe env addr of
        None \<Rightarrow> (None, [])
      | Some (Err m) \<Rightarrow> (None, [Klog_Info m]))"

text \<open>The \<open>ctrl.Options\<close> literal in \<open>main\<close>.\<close>

definition manager_Options :: "env \<Rightarrow> flags \<Rightarrow> Options" where
  "manager_Options env f =
     \<lparr>Scheme = scheme,
      MetricsBindAddress = metricsAddr f,
      LeaderElection = enableLeaderElection f,
      LeaderElectionID = ''controller-leader-election-capi'',
      Namespace = watchNamespace f,
      SyncPeriod = syncPeriod f,
      NewClient = newClientFunc (client_New env),
      Port = webhookPort f,
      HealthProbeBindAddress = healthAddr f\<rparr>"

text \<open>
  \<open>mgr, err := ctrl.NewManager(ctrl.GetConfigOrDie(), ctrl.Options{...})\<close> and the check of
  \<open>err\<close>. Go evaluates the argument \<open>ctrl.GetConfigOrDie()\<close> before the call.
\<close>

definition new_manager :: "env \<Rightarrow> flags \<Rightarrow> stmt" where
  "new_manager env f s =
     (case GetConfigOrDie env s of
        Inl x \<Rightarrow> Inl x
      | Inr (config, s') \<Rightarrow>
          exit_on_error (ctrl_NewManager env config (manager_Options env f))
            ''unable to start manager'' [] s')"

definition setupChecks :: "env \<Rightarrow> stmt" where
  "setupChecks env =
     block
      [exit_on_error (AddReadyzCheck env ''ping'' Ping) ''unable to create ready check'' [],
       exit_on_error (AddHealthzCheck env ''ping'' Ping) ''unable to create health check'' []]"

text \<open>
  One \<open>if err := (&controllers.XReconciler{...}).SetupWithManager(mgr, concurrency(c))\<close>
  statement of \<open>setupReconcilers\<close>: the reconciler type, the name given to the logger and to
  the error line, and the flag value.
\<close>

definition setup_reconciler :: "env \<Rightarrow> reconciler_type \<Rightarrow> string \<Rightarrow> int \<Rightarrow> stmt" where
  "setup_reconciler env ty name c =
     exit_on_error
       (SetupWithManager env
          \<lparr>rtype = ty, Client = GetClient env, Log = [''controllers'', name]\<rparr>
          (concurrency c))
       ''unable to create controller'' [(''controller'', name)]"

definition setupReconcilers :: "env \<Rightarrow> flags \<Rightarrow> stmt" where
  "setupReconcilers env f s =
     (if webhookPort f \<noteq> 0 then Inr s
      else
        block
         [setup_reconciler env ClusterReconciler ''Cluster'' (clusterConcurrency f),
          setup_reconciler env MachineReconciler ''Machine'' (machineConcurrency f),
          setup_reconciler env MachineSetReconciler ''MachineSet'' (machineSetConcurrency f),
          setup_reconciler env MachineDeploymentReconciler ''MachineDeployment''
            (machineDeploymentConcurrency f),
          setup_reconciler env MachinePoolReconciler ''MachinePool'' (machinePoolConcurrency f)]
         s)"

text \<open>
  One \<open>if err := (&clusterv1alphaN.T{}).SetupWebhookWithManager(mgr)\<close> statement of
  \<open>setupWebhooks\<close>, with the name put in the error line.
\<close>

definition setup_webhook :: "env \<Rightarrow> api_version \<Rightarrow> api_type \<Rightarrow> string \<Rightarrow> stmt" where
  "setup_webhook env v t name =
     exit_on_error (SetupWebhookWithManager env v t)
       ''unable to create webhook'' [(''webhook'', name)]"

definition setupWebhooks :: "env \<Rightarrow> flags \<Rightarrow> stmt" where
  "setupWebhooks env f s =
     (if webhookPort f = 0 then Inr s
      else
        block
         [setup_webhook env V1alpha2 Cluster ''Cluster'',
          setup_webhook env V1alpha3 Cluster ''Cluster'',
          setup_webhook env V1alpha2 ClusterList ''ClusterList'',
          setup_webhook env V1alpha2 Machine ''Machine'',
          setup_webhook env V1alpha3 Machine ''Machine'',
          setup_webhook env V1alpha2 MachineList ''MachineList'',
          setup_webhook env V1alpha2 MachineSet ''MachineSet'',
          setup_webhook env V1alpha3 MachineSet ''MachineSet'',
          setup_webhook env V1alpha2 MachineSetList ''MachineSetList'',
          setup_webhook env V1alpha2 MachineDeployment ''MachineDeployment'',
          setup_webhook env V1alpha3 MachineDeployment ''MachineDeployment'',
          setup_webhook env V1alpha2 MachineDeploymentList ''MachineDeploymentList'',
          setup_webhook env V1alpha3 MachinePool ''MachinePool'']
         s)"

text \<open>
  \<open>setupLog.Info("starting manager")\<close> and \<open>mgr.Start\<close>: the call may never return; when it
  returns an error the process exits with status 1, otherwise \<open>main\<close> returns.
\<close>

definition start_manager :: "env \<Rightarrow> stmt" where
  "start_manager env s =
     (let s1 = s\<lparr>logged := logged s @ [Log_Info ''starting manager'' []]\<rparr>
      in if Start_returns env s1 then
           exit_on_error (mgr_Start env) ''problem running manager'' [] s1
         else Inl (NoReturn, s1\<lparr>trace := trace s1 @ [(Call_Start, None)]\<rparr>))"

text \<open>
  \<open>main\<close>, from the parsed flags on. \<open>ctrl.SetLogger(klogr.New())\<close> only chooses where the log
  lines go. The result is how the process ended and its last state.
\<close>

definition main :: "env \<Rightarrow> command_line \<Rightarrow> ending \<times> world" where
  "main env cl =
     (let f = flag_Parse cl
      in case block
                [start_profiler f,
                 new_manager env f,
                 setupChecks env,
                 setupReconcilers env f,
                 setupWebhooks env f,
                 start_manager env]
                initial of
           Inl x \<Rightarrow> x
         | Inr s \<Rightarrow> (Returned, s))"

section \<open>The boot sequence as a list of steps\<close>

text \<open>
  Apart from the profiler and the final \<open>mgr.Start\<close>, \<open>main\<close> is a sequence of library calls
  of one shape: make the call; if it returns an error, log one line and exit with status 1.
  A step is such a call with its effect on the manager, the message and the key-value pairs
  of its error line. The lists below are the steps of main.go in source order; lemma
  \<open>main_steps\<close> shows that \<open>main\<close> runs exactly them.
\<close>

type_synonym step = "call \<times> (world \<Rightarrow> world) \<times> string \<times> (string \<times> string) list"

definition checked :: "env \<Rightarrow> step \<Rightarrow> stmt" where
  "checked env d = (case d of (c, eff, m, k) \<Rightarrow> exit_on_error (lib_call env c eff) m k)"

text \<open>The state after a step whose call succeeded, and after one whose call failed.\<close>

definition ok_update :: "step \<Rightarrow> world \<Rightarrow> world" where
  "ok_update d s = (case d of (c, eff, m, k) \<Rightarrow> eff (s\<lparr>trace := trace s @ [(c, None)]\<rparr>))"

definition fail_update :: "step \<Rightarrow> error \<Rightarrow> world \<Rightarrow> world" where
  "fail_update d e s =
     (case d of (c, eff, m, k) \<Rightarrow>
        s\<lparr>trace := trace s @ [(c, Some e)], logged := logged s @ [Log_Error e m k]\<rparr>)"

definition reconciler_step :: "env \<Rightarrow> reconciler_type \<Rightarrow> string \<Rightarrow> int \<Rightarrow> step" where
  "reconciler_step env ty name c =
     (Call_SetupWithManager
        \<lparr>rtype = ty, Client = GetClient env, Log = [''controllers'', name]\<rparr> (concurrency c),
      \<lambda>s. s\<lparr>controllers := controllers s @
             [(\<lparr>rtype = ty, Client = GetClient env, Log = [''controllers'', name]\<rparr>,
               concurrency c)]\<rparr>,
      ''unable to create controller'', [(''controller'', name)])"

definition webhook_step :: "api_version \<Rightarrow> api_type \<Rightarrow> string \<Rightarrow> step" where
  "webhook_step v t name =
     (Call_SetupWebhookWithManager v t, \<lambda>s. s\<lparr>webhooks := webhooks s @ [(v, t)]\<rparr>,
      ''unable to create webhook'', [(''webhook'', name)])"

definition reconciler_steps :: "env \<Rightarrow> flags \<Rightarrow> step list" where
  "reconciler_steps env f =
     [reconciler_step env ClusterReconciler ''Cluster'' (clusterConcurrency f),
      reconciler_step env MachineReconciler ''Machine'' (machineConcurrency f),
      reconciler_step env MachineSetReconciler ''MachineSet'' (machineSetConcurrency f),
      reconciler_step env MachineDeploymentReconciler ''MachineDeployment''
        (machineDeploymentConcurrency f),
      reconciler_step env MachinePoolReconciler ''MachinePool'' (machinePoolConcurrency f)]"

definition webhook_steps :: "step list" where
  "webhook_steps =
     [webhook_step V1alpha2 Cluster ''Cluster'',
      webhook_step V1alpha3 Cluster ''Cluster'',
      webhook_step V1alpha2 ClusterList ''ClusterList'',
      webhook_step V1alpha2 Machine ''Machine'',
      webhook_step V1alpha3 Machine ''Machine'',
      webhook_step V1alpha2 MachineList ''MachineList'',
      webhook_step V1alpha2 MachineSet ''MachineSet'',
      webhook_step V1alpha3 MachineSet ''MachineSet'',
      webhook_step V1alpha2 MachineSetList ''MachineSetList'',
      webhook_step V1alpha2 MachineDeployment ''MachineDeployment'',
      webhook_step V1alpha3 MachineDeployment ''MachineDeployment'',
      webhook_step V1alpha2 MachineDeploymentList ''MachineDeploymentList'',
      webhook_step V1alpha3 MachinePool ''MachinePool'']"

definition manager_steps :: "env \<Rightarrow> flags \<Rightarrow> step list" where
  "manager_steps env f =
     [(Call_GetConfig, \<lambda>s. s, ''unable to get kubeconfig'', []),
      (Call_NewManager (kubeconfig env) (manager_Options env f),
       \<lambda>s. s\<lparr>manager := Some (manager_Options env f)\<rparr>, ''unable to start manager'', []),
      (Call_AddReadyzCheck ''ping'' Ping,
       \<lambda>s. s\<lparr>readyzChecks := readyzChecks s @ [(''ping'', Ping)]\<rparr>,
       ''unable to create ready check'', []),
      (Call_AddHealthzCheck ''ping'' Ping,
       \<lambda>s. s\<lparr>healthzChecks := healthzChecks s @ [(''ping'', Ping)]\<rparr>,
       ''unable to create health check'', [])]"

definition boot_steps :: "env \<Rightarrow> flags \<Rightarrow> step list" where
  "boot_steps env f =
     manager_steps env f @ (if webhookPort f = 0 then reconciler_steps env f else webhook_steps)"

definition start_step :: step where
  "start_step = (Call_Start, \<lambda>s. s, ''problem running manager'', [])"

text \<open>The state after the profiler statement, and the state after "starting manager" is logged.\<close>

definition profiled :: "flags \<Rightarrow> world" where
  "profiled f =
     (if profilerAddress f \<noteq> '''' then
        initial\<lparr>logged := [Klog_Info (''Profiler listening for requests at '' @ profilerAddress f)],
                goroutines := [Profiler (profilerAddress f)]\<rparr>
      else initial)"

definition starting :: "world \<Rightarrow> world" where
  "starting s = s\<lparr>logged := logged s @ [Log_Info ''starting manager'' []]\<rparr>"

text \<open>The state after the first \<open>n\<close> boot steps have succeeded.\<close>

definition boot_state :: "env \<Rightarrow> flags \<Rightarrow> nat \<Rightarrow> world" where
  "boot_state env f n = fold ok_update (take n (boot_steps env f)) (profiled f)"

section \<open>Notions used in the properties\<close>

text \<open>The run got as far as calling \<open>mgr.Start\<close>: boot is over and the run loop was entered.\<close>

definition reached_Start :: "world \<Rightarrow> bool" where
  "reached_Start s \<longleftrightarrow> Call_Start \<in> set (map fst (trace s))"

text \<open>
  The line that identifies the stage at which a call failed: manager construction, check
  registration, controller registration (with the controller's name), webhook registration
  (with the type's name), and the run loop.
\<close>

fun reconciler_name :: "reconciler_type \<Rightarrow> string" where
  "reconciler_name ClusterReconciler = ''Cluster''"
| "reconciler_name MachineReconciler = ''Machine''"
| "reconciler_name MachineSetReconciler = ''MachineSet''"
| "reconciler_name MachineDeploymentReconciler = ''MachineDeployment''"
| "reconciler_name MachinePoolReconciler = ''MachinePool''"

fun type_name :: "api_type \<Rightarrow> string" where
  "type_name Cluster = ''Cluster''"
| "type_name ClusterList = ''ClusterList''"
| "type_name Machine = ''Machine''"
| "type_name MachineList = ''MachineList''"
| "type_name MachineSet = ''MachineSet''"
| "type_name MachineSetList = ''MachineSetList''"
| "type_name MachineDeployment = ''MachineDeployment''"
| "type_name MachineDeploymentList = ''MachineDeploymentList''"
| "type_name MachinePool = ''MachinePool''"

fun error_line :: "call \<Rightarrow> error \<Rightarrow> log_entry" where
  "error_line Call_GetConfig e = Log_Error e ''unable to get kubeconfig'' []"
| "error_line (Call_NewManager config opts) e = Log_Error e ''unable to start manager'' []"
| "error_line (Call_AddReadyzCheck name chk) e = Log_Error e ''unable to create ready check'' []"
| "error_line (Call_AddHealthzCheck name chk) e = Log_Error e ''unable to create health check'' []"
| "error_line (Call_SetupWithManager r opts) e =
     Log_Error e ''unable to create controller'' [(''controller'', reconciler_name (rtype r))]"
| "error_line (Call_SetupWebhookWithManager v t) e =
     Log_Error e ''unable to create webhook'' [(''webhook'', type_name t)]"
| "error_line Call_Start e = Log_Error e ''problem running manager'' []"

text \<open>The flag that belongs to each kind of reconciler.\<close>

fun own_bound :: "flags \<Rightarrow> reconciler_type \<Rightarrow> int" where
  "own_bound f ClusterReconciler = clusterConcurrency f"
| "own_bound f MachineReconciler = machineConcurrency f"
| "own_bound f MachineSetReconciler = machineSetConcurrency f"
| "own_bound f MachineDeploymentReconciler = machineDeploymentConcurrency f"
| "own_bound f MachinePoolReconciler = machinePoolConcurrency f"

section \<open>Concrete environments and command lines\<close>

text \<open>
  An environment in which no library call fails and \<open>mgr.Start\<close> returns \<open>nil\<close> after a
  shutdown signal.
\<close>

definition ok_env :: env where
  "ok_env =
     \<lparr>fails = (\<lambda>s c. None),
      kubeconfig = RestConfig 0,
      GetClient = ManagerClient 0,
      client_New = (\<lambda>config options. Inr (DirectClient 0)),
      Start_returns = (\<lambda>s. True),
      ListenAndServe = (\<lambda>addr. None)\<rparr>"

text \<open>The same, except that \<open>AddHealthzCheck\<close> fails.\<close>

definition healthz_fails_env :: env where
  "healthz_fails_env =
     ok_env\<lparr>fails :=
       (\<lambda>s c. case c of Call_AddHealthzCheck name chk \<Rightarrow> Some (Err ''already started'')
               | _ \<Rightarrow> None)\<rparr>"

text \<open>The same as \<open>ok_env\<close>, except that the profiler's port is taken.\<close>

definition port_taken_env :: env where
  "port_taken_env =
     ok_env\<lparr>ListenAndServe := (\<lambda>addr. Some (Err ''bind: address already in use''))\<rparr>"

text \<open>
  Command lines: \<open>-webhook-port=9443\<close>; \<open>-cluster-concurrency=0 -machine-concurrency=-1\<close>;
  \<open>-profiler-address=localhost:6060\<close>.
\<close>

definition webhook_cl :: command_line where
  "webhook_cl = no_flags\<lparr>webhook_port := Some 9443\<rparr>"

definition nonpositive_cl :: command_line where
  "nonpositive_cl = no_flags\<lparr>cluster_concurrency := Some 0, machine_concurrency := Some (- 1)\<rparr>"

definition profiler_cl :: command_line where
  "profiler_cl = no_flags\<lparr>profiler_address := Some ''localhost:6060''\<rparr>"

text \<open>Five different bounds: \<open>-cluster-concurrency=1\<close> up to \<open>-machinepool-concurrency=5\<close>.\<close>

definition distinct_bounds_cl :: command_line where
  "distinct_bounds_cl =
     no_flags\<lparr>cluster_concurrency := Some 1, machine_concurrency := Some 2,
       machineset_concurrency := Some 3, machinedeployment_concurrency := Some 4,
       machinepool_concurrency := Some 5\<rparr>"

text \<open>\<open>-enable-leader-election=true\<close>.\<close>

definition leader_cl :: command_line where
  "leader_cl = no_flags\<lparr>enable_leader_election := Some True\<rparr>"

section \<open>The program runs its list of steps\<close>

text \<open>
  A checked step either succeeds and updates the state, or fails and ends the process
  with status 1 after one error line.
\<close>

lemma checked_cases:
  "checked env d s =
     (case fails env s (fst d) of
        None \<Rightarrow> Inr (ok_update d s)
      | Some e \<Rightarrow> Inl (Exit 1, fail_update d e s))"
  by (cases d) (simp add: checked_def ok_update_def fail_update_def exit_on_error_def
      lib_call_def split: option.splits)

lemma block_append:
  "block (fs @ gs) s = (case block fs s of Inl x \<Rightarrow> Inl x | Inr s' \<Rightarrow> block gs s')"
  by (induction fs arbitrary: s) (auto split: sum.splits)

text \<open>
  Each function of main.go is the block of its steps.
\<close>

lemma setup_reconciler_checked:
  "setup_reconciler env ty name c = checked env (reconciler_step env ty name c)"
  by (simp add: setup_reconciler_def checked_def reconciler_step_def SetupWithManager_def)

lemma setup_webhook_checked: "setup_webhook env v t name = checked env (webhook_step v t name)"
  by (simp add: setup_webhook_def checked_def webhook_step_def SetupWebhookWithManager_def)

lemma setupReconcilers_steps:
  "setupReconcilers env f s =
     block (map (checked env) (if webhookPort f = 0 then reconciler_steps env f else [])) s"
  by (simp add: setupReconcilers_def reconciler_steps_def setup_reconciler_checked)

lemma setupWebhooks_steps:
  "setupWebhooks env f s =
     block (map (checked env) (if webhookPort f = 0 then [] else webhook_steps)) s"
  by (simp add: setupWebhooks_def webhook_steps_def setup_webhook_checked)

lemma new_manager_steps:
  "new_manager env f s = block (map (checked env) (take 2 (manager_steps env f))) s"
  by (simp add: new_manager_def manager_steps_def GetConfigOrDie_def checked_def
      exit_on_error_def ctrl_NewManager_def split: prod.splits option.splits sum.splits)

lemma setupChecks_steps:
  "setupChecks env s = block (map (checked env) (drop 2 (manager_steps env f))) s"
  by (simp add: setupChecks_def manager_steps_def checked_def AddReadyzCheck_def
      AddHealthzCheck_def)

lemma start_profiler_profiled: "start_profiler f initial = Inr (profiled f)"
  by (simp add: start_profiler_def profiled_def initial_def)

lemma boot_steps_eq:
  "block [start_profiler f, new_manager env f, setupChecks env, setupReconcilers env f,
          setupWebhooks env f] initial =
     block (map (checked env) (boot_steps env f)) (profiled f)"
proof -
  have m: "manager_steps env f = take 2 (manager_steps env f) @ drop 2 (manager_steps env f)"
    by simp
  have "block (map (checked env) (boot_steps env f)) (profiled f) =
      (case new_manager env f (profiled f) of Inl x \<Rightarrow> Inl x | Inr s1 \<Rightarrow>
        (case setupChecks env s1 of Inl x \<Rightarrow> Inl x | Inr s2 \<Rightarrow>
          (case setupReconcilers env f s2 of Inl x \<Rightarrow> Inl x | Inr s3 \<Rightarrow>
             setupWebhooks env f s3)))"
    unfolding boot_steps_def
    apply (subst m)
    apply (simp only: map_append block_append new_manager_steps [symmetric]
        setupChecks_steps [of env _ f, symmetric])
    apply (simp add: setupReconcilers_steps setupWebhooks_steps block_append split: sum.splits)
    done
  then show ?thesis
    by (simp add: start_profiler_profiled split: sum.splits)
qed

text \<open>\<open>main\<close> runs the boot steps and then starts the manager.\<close>

lemma main_steps:
  "main env cl =
     (case block (map (checked env) (boot_steps env (flag_Parse cl))) (profiled (flag_Parse cl)) of
        Inl x \<Rightarrow> x
      | Inr s \<Rightarrow> (case start_manager env s of Inl x \<Rightarrow> x | Inr s' \<Rightarrow> (Returned, s')))"
proof -
  have six: "[start_profiler f, new_manager env f, setupChecks env, setupReconcilers env f,
        setupWebhooks env f, start_manager env] =
      [start_profiler f, new_manager env f, setupChecks env, setupReconcilers env f,
        setupWebhooks env f] @ [start_manager env]" for f
    by simp
  have "block [start_profiler f, new_manager env f, setupChecks env, setupReconcilers env f,
        setupWebhooks env f, start_manager env] initial =
      (case block (map (checked env) (boot_steps env f)) (profiled f) of
         Inl x \<Rightarrow> Inl x
       | Inr s \<Rightarrow> start_manager env s)" for f
    by (simp only: six block_append boot_steps_eq) (simp split: sum.splits)
  then show ?thesis
    by (simp add: main_def Let_def split: sum.splits)
qed

text \<open>
  A block of checked steps ends in one of two ways: all steps succeeded, or the steps before
  some position succeeded and the step at that position failed.
\<close>

lemma block_checked_outcome:
  "case block (map (checked env) ds) s of
     Inr s' \<Rightarrow> s' = fold ok_update ds s
   | Inl (t, s') \<Rightarrow>
       t = Exit 1 \<and>
       (\<exists>n e. n < length ds \<and> s' = fail_update (ds ! n) e (fold ok_update (take n ds) s))"
proof (induction ds arbitrary: s)
  case Nil
  show ?case by simp
next
  case (Cons d ds)
  show ?case
  proof (cases "fails env s (fst d)")
    case (Some e)
    have "fail_update d e s = fail_update ((d # ds) ! 0) e (fold ok_update (take 0 (d # ds)) s)"
      by simp
    then have "\<exists>n e'. n < length (d # ds) \<and>
        fail_update d e s = fail_update ((d # ds) ! n) e' (fold ok_update (take n (d # ds)) s)"
      by (metis length_greater_0_conv list.distinct(1))
    with Some show ?thesis
      by (simp add: checked_cases)
  next
    case None
    then have run: "block (map (checked env) (d # ds)) s = block (map (checked env) ds) (ok_update d s)"
      by (simp add: checked_cases)
    show ?thesis
    proof (cases "block (map (checked env) ds) (ok_update d s)")
      case (Inr s')
      with Cons.IH [of "ok_update d s"] run show ?thesis by simp
    next
      case (Inl x)
      obtain t s' where x: "x = (t, s')" by (cases x)
      from Cons.IH [of "ok_update d s"] Inl x obtain n e where
        t: "t = Exit 1" and n: "n < length ds" and
        s': "s' = fail_update (ds ! n) e (fold ok_update (take n ds) (ok_update d s))"
        by auto
      have "Suc n < length (d # ds) \<and>
          s' = fail_update ((d # ds) ! Suc n) e (fold ok_update (take (Suc n) (d # ds)) s)"
        using n s' by simp
      then have "\<exists>n e. n < length (d # ds) \<and>
          s' = fail_update ((d # ds) ! n) e (fold ok_update (take n (d # ds)) s)"
        by blast
      with run Inl x t show ?thesis by simp
    qed
  qed
qed

lemma block_checked_no_failure:
  assumes "\<And>s c. fails env s c = None"
  shows "block (map (checked env) ds) s = Inr (fold ok_update ds s)"
  using assms by (induction ds arbitrary: s) (simp_all add: checked_cases)

lemma fold_ok_update_inv:
  assumes "I s" and "\<And>d s. d \<in> set ds \<Longrightarrow> I s \<Longrightarrow> I (ok_update d s)"
  shows "I (fold ok_update (take n ds) s)"
  using assms
proof (induction ds arbitrary: s n)
  case Nil
  then show ?case by simp
next
  case (Cons d ds)
  show ?case
  proof (cases n)
    case 0
    with Cons.prems show ?thesis by simp
  next
    case (Suc m)
    have "I (fold ok_update (take m ds) (ok_update d s))"
      by (rule Cons.IH) (simp_all add: Cons.prems)
    with Suc show ?thesis by simp
  qed
qed

lemma start_manager_cases:
  "start_manager env s =
     (if Start_returns env (starting s) then
        (case fails env (starting s) Call_Start of
           None \<Rightarrow> Inr (ok_update start_step (starting s))
         | Some e \<Rightarrow> Inl (Exit 1, fail_update start_step e (starting s)))
      else Inl (NoReturn, ok_update start_step (starting s)))"
  by (simp add: start_manager_def starting_def Let_def mgr_Start_def exit_on_error_def
      lib_call_def ok_update_def fail_update_def start_step_def split: option.splits)

text \<open>
  It follows that a run of \<open>main\<close> ends in one of three ways: a boot step failed; \<open>mgr.Start\<close>
  returned an error; or \<open>mgr.Start\<close> returned \<open>nil\<close> or never returned.
\<close>

lemma main_outcomes:
  fixes env cl
  defines "f \<equiv> flag_Parse cl"
  defines "ds \<equiv> boot_steps env f"
  shows "(\<exists>n e. n < length ds \<and>
            main env cl = (Exit 1, fail_update (ds ! n) e (boot_state env f n)))
       \<or> (\<exists>e. main env cl =
            (Exit 1, fail_update start_step e (starting (boot_state env f (length ds)))))
       \<or> (\<exists>t. (t = Returned \<or> t = NoReturn) \<and>
            main env cl = (t, ok_update start_step (starting (boot_state env f (length ds)))))"
proof (cases "block (map (checked env) ds) (profiled f)")
  case (Inl x)
  obtain t s' where x: "x = (t, s')" by (cases x)
  from block_checked_outcome [where env = env and ds = ds and s = "profiled f"] Inl x
  obtain n e where "t = Exit 1" "n < length ds"
    "s' = fail_update (ds ! n) e (fold ok_update (take n ds) (profiled f))"
    by auto
  moreover have "main env cl = (t, s')"
    using Inl x by (simp add: main_steps f_def [symmetric] ds_def [symmetric])
  ultimately show ?thesis
    by (auto simp: boot_state_def ds_def)
next
  case (Inr sb)
  from block_checked_outcome [where env = env and ds = ds and s = "profiled f"] Inr
  have sb: "sb = boot_state env f (length ds)"
    by (simp add: boot_state_def ds_def)
  have m: "main env cl = (case start_manager env sb of Inl x \<Rightarrow> x | Inr s \<Rightarrow> (Returned, s))"
    using Inr
    by (simp add: main_steps f_def [symmetric] ds_def [symmetric]
        split: sum.splits)
  show ?thesis
    unfolding m sb [symmetric]
    by (auto simp: start_manager_cases split: option.splits)
qed

text \<open>
  A proof rule: a property of all final outcomes follows from an invariant of the states
  between boot steps.
\<close>

lemma main_induct:
  fixes env cl
  defines "f \<equiv> flag_Parse cl"
  assumes init: "I (profiled f)"
    and step: "\<And>d s. d \<in> set (boot_steps env f) \<Longrightarrow> I s \<Longrightarrow> I (ok_update d s)"
    and fail: "\<And>d s e. d \<in> set (boot_steps env f) \<Longrightarrow> I s \<Longrightarrow> P (Exit 1) (fail_update d e s)"
    and start_fail: "\<And>s e. I s \<Longrightarrow> P (Exit 1) (fail_update start_step e (starting s))"
    and start_ok: "\<And>s t. I s \<Longrightarrow> t = Returned \<or> t = NoReturn \<Longrightarrow>
        P t (ok_update start_step (starting s))"
  shows "P (fst (main env cl)) (snd (main env cl))"
proof -
  have I: "I (boot_state env f n)" for n
    unfolding boot_state_def by (rule fold_ok_update_inv [OF init step])
  from main_outcomes [of env cl]
  consider n e where "n < length (boot_steps env f)"
      "main env cl = (Exit 1, fail_update (boot_steps env f ! n) e (boot_state env f n))"
    | e where "main env cl =
        (Exit 1, fail_update start_step e (starting (boot_state env f (length (boot_steps env f)))))"
    | t where "t = Returned \<or> t = NoReturn"
      "main env cl = (t, ok_update start_step (starting (boot_state env f (length (boot_steps env f)))))"
    unfolding f_def by blast
  then show ?thesis
  proof cases
    case 1
    then show ?thesis using fail [OF nth_mem [OF 1(1)] I] by simp
  next
    case 2
    then show ?thesis using start_fail [OF I] by simp
  next
    case 3
    then show ?thesis using start_ok [OF I 3(1)] by simp
  qed
qed

text \<open>
  Facts about the individual boot steps: what each adds to the trace and to the log, that
  none of them is \<open>mgr.Start\<close>, and that no two of them are the same call.
\<close>

lemmas step_defs = boot_steps_def manager_steps_def reconciler_steps_def webhook_steps_def
  reconciler_step_def webhook_step_def

lemma boot_steps_no_Start: "d \<in> set (boot_steps env f) \<Longrightarrow> fst d \<noteq> Call_Start"
  by (auto simp: step_defs split: if_splits)

lemma fold_ok_update_trace:
  assumes "\<And>d s. d \<in> set ds \<Longrightarrow> trace (ok_update d s) = trace s @ [(fst d, None)]"
  shows "trace (fold ok_update ds s) = trace s @ map (\<lambda>d. (fst d, None)) ds"
  using assms by (induction ds arbitrary: s) simp_all

lemma trace_profiled: "trace (profiled f) = []"
  by (simp add: profiled_def initial_def)

lemma boot_steps_trace:
  "d \<in> set (boot_steps env f) \<Longrightarrow>
     trace (ok_update d s) = trace s @ [(fst d, None)] \<and> logged (ok_update d s) = logged s \<and>
     goroutines (ok_update d s) = goroutines s"
  by (auto simp: step_defs ok_update_def split: if_splits)

lemma trace_boot_state:
  "trace (boot_state env f n) = map (\<lambda>d. (fst d, None)) (take n (boot_steps env f))"
proof -
  have "trace (fold ok_update (take n (boot_steps env f)) (profiled f)) =
      trace (profiled f) @ map (\<lambda>d. (fst d, None)) (take n (boot_steps env f))"
  proof (rule fold_ok_update_trace)
    fix d s
    assume "d \<in> set (take n (boot_steps env f))"
    then have "d \<in> set (boot_steps env f)" by (rule in_set_takeD)
    then show "trace (ok_update d s) = trace s @ [(fst d, None)]"
      by (simp add: boot_steps_trace)
  qed
  then show ?thesis by (simp add: boot_state_def trace_profiled)
qed

lemma boot_steps_error_line:
  "d \<in> set (boot_steps env f) \<Longrightarrow>
     trace (fail_update d e s) = trace s @ [(fst d, Some e)] \<and>
     logged (fail_update d e s) = logged s @ [error_line (fst d) e]"
  by (auto simp: step_defs fail_update_def split: if_splits)

lemma boot_steps_distinct: "distinct (map fst (boot_steps env f) @ [Call_Start])"
  by (simp add: step_defs)

text \<open>
  The state after all boot steps, in the two modes.
\<close>

lemma boot_state_full_reconcilers:
  assumes "webhookPort f = 0"
  shows "controllers (boot_state env f (length (boot_steps env f))) =
      [(\<lparr>rtype = ClusterReconciler, Client = GetClient env, Log = [''controllers'', ''Cluster'']\<rparr>,
        concurrency (clusterConcurrency f)),
       (\<lparr>rtype = MachineReconciler, Client = GetClient env, Log = [''controllers'', ''Machine'']\<rparr>,
        concurrency (machineConcurrency f)),
       (\<lparr>rtype = MachineSetReconciler, Client = GetClient env,
          Log = [''controllers'', ''MachineSet'']\<rparr>,
        concurrency (machineSetConcurrency f)),
       (\<lparr>rtype = MachineDeploymentReconciler, Client = GetClient env,
          Log = [''controllers'', ''MachineDeployment'']\<rparr>,
        concurrency (machineDeploymentConcurrency f)),
       (\<lparr>rtype = MachinePoolReconciler, Client = GetClient env,
          Log = [''controllers'', ''MachinePool'']\<rparr>,
        concurrency (machinePoolConcurrency f))]"
    and "webhooks (boot_state env f (length (boot_steps env f))) = []"
  using assms by (simp_all add: boot_state_def step_defs ok_update_def profiled_def initial_def)

lemma boot_state_full_webhooks:
  assumes "webhookPort f \<noteq> 0"
  shows "webhooks (boot_state env f (length (boot_steps env f))) =
      [(V1alpha2, Cluster), (V1alpha3, Cluster), (V1alpha2, ClusterList),
       (V1alpha2, Machine), (V1alpha3, Machine), (V1alpha2, MachineList),
       (V1alpha2, MachineSet), (V1alpha3, MachineSet), (V1alpha2, MachineSetList),
       (V1alpha2, MachineDeployment), (V1alpha3, MachineDeployment),
       (V1alpha2, MachineDeploymentList), (V1alpha3, MachinePool)]"
    and "controllers (boot_state env f (length (boot_steps env f))) = []"
  using assms by (simp_all add: boot_state_def step_defs ok_update_def profiled_def initial_def)

lemma boot_state_full_manager:
  "manager (boot_state env f (length (boot_steps env f))) = Some (manager_Options env f)"
  "readyzChecks (boot_state env f (length (boot_steps env f))) = [(''ping'', Ping)]"
  "healthzChecks (boot_state env f (length (boot_steps env f))) = [(''ping'', Ping)]"
  by (simp_all add: boot_state_def step_defs ok_update_def profiled_def initial_def)

text \<open>
  A run whose trace contains \<open>mgr.Start\<close> has gone through all boot steps.
\<close>

lemma started_state:
  assumes "reached_Start (snd (main env cl))"
  shows "\<exists>u. snd (main env cl) =
      u (starting (boot_state env (flag_Parse cl) (length (boot_steps env (flag_Parse cl))))) \<and>
      (u = ok_update start_step \<or> (\<exists>e. u = fail_update start_step e))"
proof -
  let ?f = "flag_Parse cl"
  let ?ds = "boot_steps env ?f"
  from main_outcomes [of env cl]
  consider n e where "n < length ?ds"
      "main env cl = (Exit 1, fail_update (?ds ! n) e (boot_state env ?f n))"
    | e where "main env cl = (Exit 1, fail_update start_step e (starting (boot_state env ?f (length ?ds))))"
    | t where "main env cl = (t, ok_update start_step (starting (boot_state env ?f (length ?ds))))"
    by blast
  then show ?thesis
  proof cases
    case 1
    have d: "?ds ! n \<in> set ?ds" using 1(1) by simp
    have "fst x \<noteq> Call_Start" if "x \<in> set (take n ?ds)" for x
      using that boot_steps_no_Start [of x env ?f] by (blast dest: in_set_takeD)
    then have a: "Call_Start \<notin> fst ` set (take n ?ds)"
      by (metis imageE)
    have b: "fst (?ds ! n) \<noteq> Call_Start"
      using boot_steps_no_Start [OF d] .
    have "map fst (trace (snd (main env cl))) = map fst (take n ?ds) @ [fst (?ds ! n)]"
      using 1(2) boot_steps_error_line [OF d, of e "boot_state env ?f n"]
      by (simp add: trace_boot_state comp_def)
    with a b have "\<not> reached_Start (snd (main env cl))"
      by (simp add: reached_Start_def)
    with assms show ?thesis by simp
  next
    case 2
    then show ?thesis by auto
  next
    case 3
    then show ?thesis by auto
  qed
qed

lemma started_registrations:
  assumes "reached_Start (snd (main env cl))"
  defines "sb \<equiv> boot_state env (flag_Parse cl) (length (boot_steps env (flag_Parse cl)))"
  shows "controllers (snd (main env cl)) = controllers sb"
    and "webhooks (snd (main env cl)) = webhooks sb"
    and "readyzChecks (snd (main env cl)) = readyzChecks sb"
    and "healthzChecks (snd (main env cl)) = healthzChecks sb"
    and "manager (snd (main env cl)) = manager sb"
  using started_state [OF assms(1)]
  by (auto simp: sb_def ok_update_def fail_update_def start_step_def starting_def)

text \<open>
  When no library call fails, the run goes through all steps.
\<close>

lemma main_no_failure:
  fixes env cl
  assumes "\<And>s c. fails env s c = None"
  defines "sb \<equiv> boot_state env (flag_Parse cl) (length (boot_steps env (flag_Parse cl)))"
  shows "main env cl =
      (if Start_returns env (starting sb) then Returned else NoReturn,
       ok_update start_step (starting sb))"
proof -
  have "block (map (checked env) (boot_steps env (flag_Parse cl))) (profiled (flag_Parse cl)) = Inr sb"
    unfolding sb_def boot_state_def by (simp add: block_checked_no_failure [OF assms(1)])
  then show ?thesis
    by (simp add: main_steps start_manager_cases assms(1))
qed

lemma flags_webhook_cl: "webhookPort (flag_Parse webhook_cl) = 9443"
  by (simp add: flag_Parse_def webhook_cl_def no_flags_def flag_Var_def)

lemma flags_no_flags: "webhookPort (flag_Parse no_flags) = 0"
  by (simp add: flag_Parse_def no_flags_def flag_Var_def)

lemma fails_ok_env: "fails ok_env s c = None"
  by (simp add: ok_env_def)

lemma fail_update_fields:
  "controllers (fail_update d e s) = controllers s"
  "webhooks (fail_update d e s) = webhooks s"
  "goroutines (fail_update d e s) = goroutines s"
  "manager (fail_update d e s) = manager s"
  "readyzChecks (fail_update d e s) = readyzChecks s"
  "healthzChecks (fail_update d e s) = healthzChecks s"
  by (simp_all add: fail_update_def split: prod.splits)

lemma start_fields:
  "controllers (ok_update start_step (starting s)) = controllers s"
  "webhooks (ok_update start_step (starting s)) = webhooks s"
  "goroutines (ok_update start_step (starting s)) = goroutines s"
  "manager (ok_update start_step (starting s)) = manager s"
  "trace (ok_update start_step (starting s)) = trace s @ [(Call_Start, None)]"
  "trace (fail_update start_step e (starting s)) = trace s @ [(Call_Start, Some e)]"
  "logged (fail_update start_step e (starting s)) =
     logged s @ [Log_Info ''starting manager'' [], error_line Call_Start e]"
  "controllers (starting s) = controllers s"
  "webhooks (starting s) = webhooks s"
  "goroutines (starting s) = goroutines s"
  "manager (starting s) = manager s"
  by (simp_all add: ok_update_def fail_update_def start_step_def starting_def)

text \<open>
  In no run does the mode that was not selected register anything.
\<close>

lemma registrations_unstarted:
  "(webhookPort (flag_Parse cl) \<noteq> 0 \<longrightarrow> controllers (snd (main env cl)) = []) \<and>
   (webhookPort (flag_Parse cl) = 0 \<longrightarrow> webhooks (snd (main env cl)) = [])"
proof -
  let ?f = "flag_Parse cl"
  let ?I = "\<lambda>s::world. (webhookPort ?f \<noteq> 0 \<longrightarrow> controllers s = []) \<and>
                 (webhookPort ?f = 0 \<longrightarrow> webhooks s = [])"
  have "(\<lambda>t. ?I) (fst (main env cl)) (snd (main env cl))"
  proof (rule main_induct [where I = ?I])
    show "?I (profiled ?f)" by (simp add: profiled_def initial_def)
  next
    fix d s assume "d \<in> set (boot_steps env ?f)" "?I s"
    then show "?I (ok_update d s)"
      by (auto simp: step_defs ok_update_def split: if_splits)
  next
    fix d s e assume "d \<in> set (boot_steps env ?f)" "?I s"
    then show "?I (fail_update d e s)"
      by (simp add: fail_update_fields)
  next
    fix s e assume "?I s"
    then show "?I (fail_update start_step e (starting s))"
      by (simp add: fail_update_fields start_fields)
  next
    fix s t assume "?I s"
    then show "?I (ok_update start_step (starting s))"
      by (simp add: start_fields)
  qed
  then show ?thesis .
qed

section \<open>Facts for the concrete runs and the registrations\<close>

lemma newClientFunc_Inr:
  "newClientFunc new_client cache config options = Inr d \<Longrightarrow>
     \<exists>c. new_client config options = Inr c \<and> d = \<lparr>Reader = cache, Writer = c, StatusClient = c\<rparr>"
  by (auto simp: newClientFunc_def split: sum.splits)

lemma main_ok_env:
  "main ok_env cl =
     (Returned,
      ok_update start_step
        (starting (boot_state ok_env (flag_Parse cl) (length (boot_steps ok_env (flag_Parse cl))))))"
  using main_no_failure [of ok_env cl] by (simp add: ok_env_def)

lemma reached_Start_ok: "reached_Start (ok_update start_step (starting s))"
  by (simp add: reached_Start_def start_fields)

lemma flags_distinct_bounds_cl:
  "flag_Parse distinct_bounds_cl =
     \<lparr>metricsAddr = '':8080'', enableLeaderElection = False, watchNamespace = '''',
      profilerAddress = '''', clusterConcurrency = 1, machineConcurrency = 2,
      machineSetConcurrency = 3, machineDeploymentConcurrency = 4,
      machinePoolConcurrency = 5, syncPeriod = 10 * Minute, webhookPort = 0,
      healthAddr = '':9440''\<rparr>"
  by (simp add: flag_Parse_def distinct_bounds_cl_def no_flags_def flag_Var_def)

text \<open>
  Every registered controller carries the bound of its own flag.
\<close>

lemma bounds_invariant:
  "\<forall>b \<in> set (controllers (snd (main env cl))).
      MaxConcurrentReconciles (snd b) = own_bound (flag_Parse cl) (rtype (fst b))"
proof -
  let ?f = "flag_Parse cl"
  let ?I = "\<lambda>s::world. \<forall>b \<in> set (controllers s).
      MaxConcurrentReconciles (snd b) = own_bound ?f (rtype (fst b))"
  have "(\<lambda>t. ?I) (fst (main env cl)) (snd (main env cl))"
  proof (rule main_induct [where I = ?I])
    show "?I (profiled ?f)" by (simp add: profiled_def initial_def)
  next
    fix d s assume "d \<in> set (boot_steps env ?f)" "?I s"
    then show "?I (ok_update d s)"
      by (auto simp: step_defs ok_update_def concurrency_def split: if_splits)
  next
    fix d s e assume "d \<in> set (boot_steps env ?f)" "?I s"
    then show "?I (fail_update d e s)"
      by (simp add: fail_update_fields)
  next
    fix s e assume "?I s"
    then show "?I (fail_update start_step e (starting s))"
      by (simp add: fail_update_fields start_fields)
  next
    fix s t assume "?I s"
    then show "?I (ok_update start_step (starting s))"
      by (simp add: start_fields)
  qed
  then show ?thesis .
qed

lemma flags_nonpositive_cl:
  "webhookPort (flag_Parse nonpositive_cl) = 0"
  "clusterConcurrency (flag_Parse nonpositive_cl) = 0"
  "machineConcurrency (flag_Parse nonpositive_cl) = - 1"
  by (simp_all add: flag_Parse_def nonpositive_cl_def no_flags_def flag_Var_def)

text \<open>
  The process exits only after a call has failed; a failed call is the last one and is
  followed by its error line; no call is made twice.
\<close>

lemma exit_needs_failure:
  "\<forall>n. fst (main env cl) = Exit n \<longrightarrow>
     n = 1 \<and> (\<exists>c e. (c, Some e) \<in> set (trace (snd (main env cl))))"
proof -
  let ?P = "\<lambda>t (s::world). \<forall>n. t = Exit n \<longrightarrow> n = 1 \<and> (\<exists>c e. (c, Some e) \<in> set (trace s))"
  have "?P (fst (main env cl)) (snd (main env cl))"
  proof (rule main_induct [where I = "\<lambda>s. True"])
    fix d :: step and s e
    obtain c eff m k where "d = (c, eff, m, k)" by (cases d)
    then have "(c, Some e) \<in> set (trace (fail_update d e s))"
      by (simp add: fail_update_def)
    then show "?P (Exit 1) (fail_update d e s)" by blast
  next
    fix s e
    have "(Call_Start, Some e) \<in> set (trace (fail_update start_step e (starting s)))"
      by (simp add: start_fields)
    then show "?P (Exit 1) (fail_update start_step e (starting s))" by blast
  next
    fix s :: world and t assume "t = Returned \<or> t = NoReturn"
    then show "?P t (ok_update start_step (starting s))" by auto
  qed simp_all
  then show ?thesis .
qed

lemma failure_is_fatal:
  "\<forall>c e. (c, Some e) \<in> set (trace (snd (main env cl))) \<longrightarrow>
     fst (main env cl) = Exit 1 \<and> last (trace (snd (main env cl))) = (c, Some e) \<and>
     last (logged (snd (main env cl))) = error_line c e"
proof -
  let ?f = "flag_Parse cl"
  let ?I = "\<lambda>s::world. \<forall>x \<in> set (trace s). snd x = None"
  let ?P = "\<lambda>t (s::world). \<forall>c e. (c, Some e) \<in> set (trace s) \<longrightarrow>
     t = Exit 1 \<and> last (trace s) = (c, Some e) \<and> last (logged s) = error_line c e"
  have "?P (fst (main env cl)) (snd (main env cl))"
  proof (rule main_induct [where I = ?I])
    show "?I (profiled ?f)" by (simp add: trace_profiled)
  next
    fix d s assume "d \<in> set (boot_steps env ?f)" "?I s"
    then show "?I (ok_update d s)"
      by (simp add: boot_steps_trace)
  next
    fix d s e assume d: "d \<in> set (boot_steps env ?f)" and I: "?I s"
    show "?P (Exit 1) (fail_update d e s)"
      using I by (auto simp: boot_steps_error_line [OF d])
  next
    fix s e assume I: "?I s"
    show "?P (Exit 1) (fail_update start_step e (starting s))"
      using I by (auto simp: start_fields)
  next
    fix s t assume I: "?I s"
    show "?P t (ok_update start_step (starting s))"
      using I by (auto simp: start_fields)
  qed
  then show ?thesis .
qed

lemma no_retry: "distinct (map fst (trace (snd (main env cl))))"
proof -
  let ?f = "flag_Parse cl"
  let ?ds = "boot_steps env ?f"
  have dist: "distinct (map fst ?ds @ [Call_Start])"
    by (rule boot_steps_distinct)
  have full: "map fst (trace (boot_state env ?f (length ?ds))) = map fst ?ds"
    by (simp add: trace_boot_state comp_def)
  from main_outcomes [of env cl]
  consider n e where "n < length ?ds"
      "main env cl = (Exit 1, fail_update (?ds ! n) e (boot_state env ?f n))"
    | e where "main env cl = (Exit 1, fail_update start_step e (starting (boot_state env ?f (length ?ds))))"
    | t where "main env cl = (t, ok_update start_step (starting (boot_state env ?f (length ?ds))))"
    by blast
  then show ?thesis
  proof cases
    case 1
    have d: "?ds ! n \<in> set ?ds" using 1(1) by simp
    have "map fst (trace (snd (main env cl))) = map fst (take n ?ds) @ [fst (?ds ! n)]"
      using 1(2) boot_steps_error_line [OF d, of e "boot_state env ?f n"]
      by (simp add: trace_boot_state comp_def)
    also have "\<dots> = take (Suc n) (map fst ?ds)"
      using 1(1) by (simp add: take_Suc_conv_app_nth take_map)
    finally show ?thesis
      using dist by simp
  next
    case 2
    then show ?thesis using dist full by (simp add: start_fields)
  next
    case 3
    then show ?thesis using dist full by (simp add: start_fields)
  qed
qed

lemma started_all_succeeded:
  assumes "reached_Start (snd (main env cl))"
  shows "\<forall>x \<in> set (butlast (trace (snd (main env cl)))). snd x = None"
proof -
  let ?sb = "boot_state env (flag_Parse cl) (length (boot_steps env (flag_Parse cl)))"
  from started_state [OF assms] obtain r where "trace (snd (main env cl)) = trace ?sb @ [r]"
    by (auto simp: start_fields)
  then show ?thesis
    by (auto simp: trace_boot_state)
qed

lemma healthz_fails_run:
  "trace (snd (main healthz_fails_env no_flags)) =
     [(Call_GetConfig, None),
      (Call_NewManager (RestConfig 0) (manager_Options healthz_fails_env (flag_Parse no_flags)),
       None),
      (Call_AddReadyzCheck ''ping'' Ping, None),
      (Call_AddHealthzCheck ''ping'' Ping, Some (Err ''already started''))]"
proof -
  have "main healthz_fails_env no_flags =
      (case block (map (checked healthz_fails_env)
                    (boot_steps healthz_fails_env (flag_Parse no_flags)))
              (profiled (flag_Parse no_flags)) of
         Inl x \<Rightarrow> x
       | Inr s \<Rightarrow> (case start_manager healthz_fails_env s of
                     Inl x \<Rightarrow> x | Inr s' \<Rightarrow> (Returned, s')))"
    by (simp add: main_steps split: sum.splits)
  then show ?thesis
    by (simp add: step_defs checked_cases healthz_fails_env_def ok_env_def ok_update_def
        fail_update_def profiled_def initial_def flags_no_flags flag_Parse_def no_flags_def
        flag_Var_def)
qed

text \<open>
  Nothing after the profiler statement starts or stops a goroutine, and \<open>main\<close> does not
  read what \<open>http.ListenAndServe\<close> returns.
\<close>

lemma goroutines_main:
  "goroutines (snd (main env cl)) = goroutines (profiled (flag_Parse cl))"
proof -
  let ?f = "flag_Parse cl"
  let ?I = "\<lambda>s::world. goroutines s = goroutines (profiled ?f)"
  have "(\<lambda>t. ?I) (fst (main env cl)) (snd (main env cl))"
  proof (rule main_induct [where I = ?I])
    show "?I (profiled ?f)" by simp
  next
    fix d s assume "d \<in> set (boot_steps env ?f)" "?I s"
    then show "?I (ok_update d s)"
      by (simp add: boot_steps_trace)
  next
    fix d s e assume "d \<in> set (boot_steps env ?f)" "?I s"
    then show "?I (fail_update d e s)"
      by (simp add: fail_update_fields)
  next
    fix s e assume "?I s"
    then show "?I (fail_update start_step e (starting s))"
      by (simp add: fail_update_fields start_fields)
  next
    fix s t assume "?I s"
    then show "?I (ok_update start_step (starting s))"
      by (simp add: start_fields)
  qed
  then show ?thesis .
qed

lemma main_ignores_ListenAndServe:
  "main (env\<lparr>ListenAndServe := h\<rparr>) cl = main env cl"
proof -
  let ?env = "env\<lparr>ListenAndServe := h\<rparr>"
  have steps: "boot_steps ?env f = boot_steps env f" for f
    by (simp add: step_defs manager_Options_def)
  have chk: "checked ?env = checked env"
    by (simp add: fun_eq_iff checked_cases)
  have start: "start_manager ?env = start_manager env"
    by (simp add: fun_eq_iff start_manager_cases)
  show ?thesis
    unfolding main_steps steps chk start by (rule refl)
qed

lemma flags_profiler_cl: "profilerAddress (flag_Parse profiler_cl) = ''localhost:6060''"
  by (simp add: flag_Parse_def profiler_cl_def no_flags_def flag_Var_def)

text \<open>
  The manager is only ever built with the options of \<open>manager_Options\<close>.
\<close>

lemma boot_steps_NewManager:
  "d \<in> set (boot_steps env f) \<Longrightarrow> fst d = Call_NewManager config opts \<Longrightarrow>
     opts = manager_Options env f"
  by (auto simp: step_defs split: if_splits)

lemma boot_steps_manager:
  "d \<in> set (boot_steps env f) \<Longrightarrow>
     manager (ok_update d s) = manager s \<or>
     manager (ok_update d s) = Some (manager_Options env f)"
  by (auto simp: step_defs ok_update_def split: if_splits)

lemma leader_election_invariant:
  "(\<forall>config opts r. (Call_NewManager config opts, r) \<in> set (trace (snd (main env cl))) \<longrightarrow>
      opts = manager_Options env (flag_Parse cl)) \<and>
   (\<forall>opts. manager (snd (main env cl)) = Some opts \<longrightarrow>
      opts = manager_Options env (flag_Parse cl))"
proof -
  let ?f = "flag_Parse cl"
  let ?M = "manager_Options env ?f"
  let ?I = "\<lambda>s::world.
     (\<forall>x \<in> set (trace s). \<forall>config opts. fst x = Call_NewManager config opts \<longrightarrow> opts = ?M) \<and>
     (manager s = None \<or> manager s = Some ?M)"
  have "(\<lambda>t. ?I) (fst (main env cl)) (snd (main env cl))"
  proof (rule main_induct [where I = ?I])
    show "?I (profiled ?f)" by (simp add: profiled_def initial_def)
  next
    fix d s assume d: "d \<in> set (boot_steps env ?f)" and I: "?I s"
    show "?I (ok_update d s)"
      using I boot_steps_NewManager [OF d] boot_steps_manager [OF d, of s]
      by (auto simp: boot_steps_trace [OF d])
  next
    fix d s e assume d: "d \<in> set (boot_steps env ?f)" and I: "?I s"
    show "?I (fail_update d e s)"
      using I boot_steps_NewManager [OF d]
      by (auto simp: boot_steps_error_line [OF d] fail_update_fields)
  next
    fix s e assume "?I s"
    then show "?I (fail_update start_step e (starting s))"
      by (simp add: fail_update_fields start_fields)
  next
    fix s t assume "?I s"
    then show "?I (ok_update start_step (starting s))"
      by (simp add: start_fields)
  qed
  then show ?thesis by force
qed


section \<open>Boot modes\<close>

text \<open>
  C1. The two boot modes exclude each other. With a nonzero webhook port \<open>setupReconcilers\<close>
  returns at once and leaves the state as it was; with webhook port zero \<open>setupWebhooks\<close>
  does. And however a run of \<open>main\<close> ends, its last state never holds both a registered
  controller and a registered webhook.
\<close>

theorem boot_modes_exclusive:
  "(webhookPort f \<noteq> 0 \<longrightarrow> setupReconcilers env f s = Inr s) \<and>
   (webhookPort f = 0 \<longrightarrow> setupWebhooks env f s = Inr s) \<and>
   (controllers (snd (main env cl)) = [] \<or> webhooks (snd (main env cl)) = [])"
  using registrations_unstarted [of cl env]
  by (auto simp: setupReconcilers_def setupWebhooks_def)

theorem boot_modes_exclusive_witness:
  "webhookPort (flag_Parse webhook_cl) \<noteq> 0 \<and>
   setupReconcilers ok_env (flag_Parse webhook_cl) initial = Inr initial \<and>
   webhookPort (flag_Parse no_flags) = 0 \<and>
   setupWebhooks ok_env (flag_Parse no_flags) initial = Inr initial"
  using boot_modes_exclusive [of "flag_Parse webhook_cl" ok_env initial webhook_cl]
    boot_modes_exclusive [of "flag_Parse no_flags" ok_env initial no_flags]
  by (simp add: flags_webhook_cl flags_no_flags)

text \<open>
  C3. With a nonzero webhook port, a run that reaches \<open>mgr.Start\<close> has registered thirteen
  webhooks and no controller: \<open>Cluster\<close>, \<open>Machine\<close>, \<open>MachineSet\<close> and \<open>MachineDeployment\<close> in
  both \<open>v1alpha2\<close> and \<open>v1alpha3\<close>, the four \<open>v1alpha2\<close> list types, and \<open>MachinePool\<close> in
  \<open>v1alpha3\<close> only. It is not true that every kind is registered in both versions: the run
  with \<open>-webhook-port=9443\<close> in which nothing fails registers no \<open>v1alpha2\<close> \<open>MachinePool\<close>
  webhook.
\<close>

theorem webhook_mode_registrations:
  assumes "webhookPort (flag_Parse cl) \<noteq> 0"
    and "reached_Start (snd (main env cl))"
  shows "webhooks (snd (main env cl)) =
      [(V1alpha2, Cluster), (V1alpha3, Cluster), (V1alpha2, ClusterList),
       (V1alpha2, Machine), (V1alpha3, Machine), (V1alpha2, MachineList),
       (V1alpha2, MachineSet), (V1alpha3, MachineSet), (V1alpha2, MachineSetList),
       (V1alpha2, MachineDeployment), (V1alpha3, MachineDeployment),
       (V1alpha2, MachineDeploymentList), (V1alpha3, MachinePool)] \<and>
     controllers (snd (main env cl)) = []"
  using started_registrations(1,2) [OF assms(2)] boot_state_full_webhooks [OF assms(1), of env]
  by simp

theorem webhook_mode_registrations_witness:
  "webhookPort (flag_Parse webhook_cl) \<noteq> 0 \<and>
   reached_Start (snd (main ok_env webhook_cl)) \<and>
   length (webhooks (snd (main ok_env webhook_cl))) = 13 \<and>
   controllers (snd (main ok_env webhook_cl)) = []"
proof -
  have a: "webhookPort (flag_Parse webhook_cl) \<noteq> 0"
    by (simp add: flags_webhook_cl)
  have b: "reached_Start (snd (main ok_env webhook_cl))"
    by (simp add: main_ok_env reached_Start_ok)
  show ?thesis
    using a b webhook_mode_registrations [OF a b] by simp
qed

theorem webhooks_both_versions_counterexample:
  "webhookPort (flag_Parse webhook_cl) \<noteq> 0 \<and>
   fst (main ok_env webhook_cl) = Returned \<and>
   reached_Start (snd (main ok_env webhook_cl)) \<and>
   (V1alpha2, MachinePool) \<notin> set (webhooks (snd (main ok_env webhook_cl)))"
  by (simp add: main_ok_env reached_Start_ok start_fields flags_webhook_cl
      boot_state_full_webhooks)

text \<open>
  C4. With webhook port zero no webhook is ever registered, and a run that reaches
  \<open>mgr.Start\<close> has registered exactly five controllers, one for each reconciler, in the order
  cluster, machine, machine set, machine deployment, machine pool.
\<close>

theorem reconciler_mode_registrations:
  assumes "webhookPort (flag_Parse cl) = 0"
  shows "webhooks (snd (main env cl)) = [] \<and>
     (reached_Start (snd (main env cl)) \<longrightarrow>
        map (\<lambda>b. rtype (fst b)) (controllers (snd (main env cl))) =
          [ClusterReconciler, MachineReconciler, MachineSetReconciler,
           MachineDeploymentReconciler, MachinePoolReconciler])"
proof -
  have "webhooks (snd (main env cl)) = []"
    using registrations_unstarted [of cl env] assms by simp
  moreover have "map (\<lambda>b. rtype (fst b)) (controllers (snd (main env cl))) =
      [ClusterReconciler, MachineReconciler, MachineSetReconciler,
       MachineDeploymentReconciler, MachinePoolReconciler]"
    if "reached_Start (snd (main env cl))"
    using started_registrations(1) [OF that] boot_state_full_reconcilers(1) [OF assms, of env]
    by simp
  ultimately show ?thesis by blast
qed

theorem reconciler_mode_registrations_witness:
  "webhookPort (flag_Parse no_flags) = 0 \<and>
   reached_Start (snd (main ok_env no_flags)) \<and>
   webhooks (snd (main ok_env no_flags)) = [] \<and>
   map (\<lambda>b. rtype (fst b)) (controllers (snd (main ok_env no_flags))) =
     [ClusterReconciler, MachineReconciler, MachineSetReconciler,
      MachineDeploymentReconciler, MachinePoolReconciler]"
proof -
  have a: "webhookPort (flag_Parse no_flags) = 0"
    by (simp add: flags_no_flags)
  have b: "reached_Start (snd (main ok_env no_flags))"
    by (simp add: main_ok_env reached_Start_ok)
  show ?thesis
    using a b reconciler_mode_registrations [OF a, of ok_env] by simp
qed

text \<open>
  C5. \<open>concurrency\<close> passes its argument on as \<open>MaxConcurrentReconciles\<close>. In every run, each
  controller that has been registered carries the bound of its own kind's flag; and a run
  with webhook port zero that reaches \<open>mgr.Start\<close> has the five controllers with the five
  flag values, each with its own.
\<close>

theorem own_concurrency_bound:
  "MaxConcurrentReconciles (concurrency c) = c \<and>
   (\<forall>b \<in> set (controllers (snd (main env cl))).
      MaxConcurrentReconciles (snd b) = own_bound (flag_Parse cl) (rtype (fst b))) \<and>
   (webhookPort (flag_Parse cl) = 0 \<longrightarrow> reached_Start (snd (main env cl)) \<longrightarrow>
      map (\<lambda>b. (rtype (fst b), MaxConcurrentReconciles (snd b)))
        (controllers (snd (main env cl))) =
        [(ClusterReconciler, clusterConcurrency (flag_Parse cl)),
         (MachineReconciler, machineConcurrency (flag_Parse cl)),
         (MachineSetReconciler, machineSetConcurrency (flag_Parse cl)),
         (MachineDeploymentReconciler, machineDeploymentConcurrency (flag_Parse cl)),
         (MachinePoolReconciler, machinePoolConcurrency (flag_Parse cl))])"
proof -
  have "map (\<lambda>b. (rtype (fst b), MaxConcurrentReconciles (snd b)))
        (controllers (snd (main env cl))) =
        [(ClusterReconciler, clusterConcurrency (flag_Parse cl)),
         (MachineReconciler, machineConcurrency (flag_Parse cl)),
         (MachineSetReconciler, machineSetConcurrency (flag_Parse cl)),
         (MachineDeploymentReconciler, machineDeploymentConcurrency (flag_Parse cl)),
         (MachinePoolReconciler, machinePoolConcurrency (flag_Parse cl))]"
    if "webhookPort (flag_Parse cl) = 0" "reached_Start (snd (main env cl))"
    using started_registrations(1) [OF that(2)] boot_state_full_reconcilers(1) [OF that(1), of env]
    by (simp add: concurrency_def)
  then show ?thesis
    using bounds_invariant [of env cl] by (simp add: concurrency_def)
qed

theorem own_concurrency_bound_witness:
  "webhookPort (flag_Parse distinct_bounds_cl) = 0 \<and>
   reached_Start (snd (main ok_env distinct_bounds_cl)) \<and>
   map (\<lambda>b. (rtype (fst b), MaxConcurrentReconciles (snd b)))
     (controllers (snd (main ok_env distinct_bounds_cl))) =
     [(ClusterReconciler, 1), (MachineReconciler, 2), (MachineSetReconciler, 3),
      (MachineDeploymentReconciler, 4), (MachinePoolReconciler, 5)]"
proof -
  have a: "webhookPort (flag_Parse distinct_bounds_cl) = 0"
    by (simp add: flags_distinct_bounds_cl)
  have b: "reached_Start (snd (main ok_env distinct_bounds_cl))"
    by (simp add: main_ok_env reached_Start_ok)
  show ?thesis
    using a b own_concurrency_bound [of 1 ok_env distinct_bounds_cl]
    by (simp add: flags_distinct_bounds_cl)
qed

section \<open>Flags and the client\<close>

text \<open>
  C8. A flag that does not occur on the command line has its documented default: metrics
  address \<open>:8080\<close>, leader election off, namespace and profiler address empty, each of the
  five concurrency bounds 10, sync period ten minutes (in nanoseconds), webhook port 0,
  health address \<open>:9440\<close>.
\<close>

theorem flag_defaults:
  "(metrics_addr cl = None \<longrightarrow> metricsAddr (flag_Parse cl) = '':8080'') \<and>
   (enable_leader_election cl = None \<longrightarrow> enableLeaderElection (flag_Parse cl) = False) \<and>
   (namespace cl = None \<longrightarrow> watchNamespace (flag_Parse cl) = '''') \<and>
   (profiler_address cl = None \<longrightarrow> profilerAddress (flag_Parse cl) = '''') \<and>
   (cluster_concurrency cl = None \<longrightarrow> clusterConcurrency (flag_Parse cl) = 10) \<and>
   (machine_concurrency cl = None \<longrightarrow> machineConcurrency (flag_Parse cl) = 10) \<and>
   (machineset_concurrency cl = None \<longrightarrow> machineSetConcurrency (flag_Parse cl) = 10) \<and>
   (machinedeployment_concurrency cl = None \<longrightarrow>
      machineDeploymentConcurrency (flag_Parse cl) = 10) \<and>
   (machinepool_concurrency cl = None \<longrightarrow> machinePoolConcurrency (flag_Parse cl) = 10) \<and>
   (sync_period cl = None \<longrightarrow> syncPeriod (flag_Parse cl) = 10 * 60 * 1000000000) \<and>
   (webhook_port cl = None \<longrightarrow> webhookPort (flag_Parse cl) = 0) \<and>
   (health_addr cl = None \<longrightarrow> healthAddr (flag_Parse cl) = '':9440'')"
  by (simp add: flag_Parse_def flag_Var_def Minute_def)

theorem flag_defaults_witness:
  "flag_Parse no_flags =
     \<lparr>metricsAddr = '':8080'', enableLeaderElection = False, watchNamespace = '''',
      profilerAddress = '''', clusterConcurrency = 10, machineConcurrency = 10,
      machineSetConcurrency = 10, machineDeploymentConcurrency = 10,
      machinePoolConcurrency = 10, syncPeriod = 600000000000, webhookPort = 0,
      healthAddr = '':9440''\<rparr>"
  using flag_defaults [of no_flags]
  by (simp add: no_flags_def flags.equality)

text \<open>
  C2. When \<open>newClientFunc\<close> returns a client, its \<open>Reader\<close> is the cache it was given, and its
  \<open>Writer\<close> and \<open>StatusClient\<close> are both the client that \<open>client.New\<close> returned for the given
  config and options. So the read methods \<open>Get\<close> and \<open>List\<close> go to the cache, the write
  methods and \<open>Status\<close> to the new direct client.
\<close>

theorem newClientFunc_split:
  assumes "newClientFunc new_client cache config options = Inr d"
  shows "Reader d = cache \<and> new_client config options = Inr (Writer d) \<and>
         StatusClient d = Writer d \<and>
         promoted d Get = ByReader cache \<and> promoted d List = ByReader cache \<and>
         promoted d Create = ByWriter (Writer d) \<and> promoted d Delete = ByWriter (Writer d) \<and>
         promoted d Update = ByWriter (Writer d) \<and> promoted d Patch = ByWriter (Writer d) \<and>
         promoted d DeleteAllOf = ByWriter (Writer d) \<and>
         promoted d Status = ByStatusClient (Writer d)"
  using newClientFunc_Inr [OF assms] by auto

theorem newClientFunc_split_witness:
  "newClientFunc (client_New ok_env) (Cache 7) (RestConfig 1) (ClientOptions 2) =
     Inr \<lparr>Reader = Cache 7, Writer = DirectClient 0, StatusClient = DirectClient 0\<rparr> \<and>
   promoted \<lparr>Reader = Cache 7, Writer = DirectClient 0, StatusClient = DirectClient 0\<rparr> Get =
     ByReader (Cache 7) \<and>
   promoted \<lparr>Reader = Cache 7, Writer = DirectClient 0, StatusClient = DirectClient 0\<rparr> Update =
     ByWriter (DirectClient 0)"
  using newClientFunc_split [of "client_New ok_env" "Cache 7" "RestConfig 1" "ClientOptions 2"
      "\<lparr>Reader = Cache 7, Writer = DirectClient 0, StatusClient = DirectClient 0\<rparr>"]
  by (simp add: newClientFunc_def ok_env_def)

section \<open>Boot errors\<close>

text \<open>
  C6. main.go does not validate the concurrency flags. The process exits only after some
  library call has returned an error; and when no library call fails and the webhook port
  is zero, boot completes whatever the five flag values are, zero and negative ones
  included, and each controller is created with \<open>MaxConcurrentReconciles\<close> equal to its flag
  value as given. It is not true that a non-positive bound is rejected at boot:
  with \<open>-cluster-concurrency=0 -machine-concurrency=-1\<close> and no failing call, \<open>main\<close> returns
  normally and the first two controllers have bounds 0 and -1.
\<close>

theorem concurrency_not_validated:
  "(\<forall>n. fst (main env cl) = Exit n \<longrightarrow>
      (\<exists>c e. (c, Some e) \<in> set (trace (snd (main env cl))))) \<and>
   ((\<forall>s c. fails env s c = None) \<and> webhookPort (flag_Parse cl) = 0 \<longrightarrow>
      (fst (main env cl) = Returned \<or> fst (main env cl) = NoReturn) \<and>
      map (\<lambda>b. MaxConcurrentReconciles (snd b)) (controllers (snd (main env cl))) =
        [clusterConcurrency (flag_Parse cl), machineConcurrency (flag_Parse cl),
         machineSetConcurrency (flag_Parse cl), machineDeploymentConcurrency (flag_Parse cl),
         machinePoolConcurrency (flag_Parse cl)])"
proof -
  have "(fst (main env cl) = Returned \<or> fst (main env cl) = NoReturn) \<and>
      map (\<lambda>b. MaxConcurrentReconciles (snd b)) (controllers (snd (main env cl))) =
        [clusterConcurrency (flag_Parse cl), machineConcurrency (flag_Parse cl),
         machineSetConcurrency (flag_Parse cl), machineDeploymentConcurrency (flag_Parse cl),
         machinePoolConcurrency (flag_Parse cl)]"
    if ok: "\<forall>s c. fails env s c = None" and port: "webhookPort (flag_Parse cl) = 0"
  proof -
    have "\<And>s c. fails env s c = None" using ok by simp
    from main_no_failure [OF this, of cl] show ?thesis
      by (simp add: start_fields boot_state_full_reconcilers(1) [OF port] concurrency_def)
  qed
  then show ?thesis
    using exit_needs_failure [of env cl] by blast
qed

theorem concurrency_not_validated_witness:
  "(\<forall>s c. fails ok_env s c = None) \<and> webhookPort (flag_Parse nonpositive_cl) = 0 \<and>
   fst (main ok_env nonpositive_cl) = Returned \<and>
   map (\<lambda>b. MaxConcurrentReconciles (snd b)) (controllers (snd (main ok_env nonpositive_cl))) =
     [0, - 1, 10, 10, 10]"
proof -
  have a: "\<forall>s c. fails ok_env s c = None" by (simp add: fails_ok_env)
  have b: "webhookPort (flag_Parse nonpositive_cl) = 0" by (simp add: flags_nonpositive_cl)
  have c: "fst (main ok_env nonpositive_cl) = Returned" by (simp add: main_ok_env)
  have d: "flag_Parse nonpositive_cl =
     \<lparr>metricsAddr = '':8080'', enableLeaderElection = False, watchNamespace = '''',
      profilerAddress = '''', clusterConcurrency = 0, machineConcurrency = - 1,
      machineSetConcurrency = 10, machineDeploymentConcurrency = 10,
      machinePoolConcurrency = 10, syncPeriod = 10 * Minute, webhookPort = 0,
      healthAddr = '':9440''\<rparr>"
    by (simp add: flag_Parse_def nonpositive_cl_def no_flags_def flag_Var_def)
  show ?thesis
    using a b c concurrency_not_validated [of ok_env nonpositive_cl]
    by (simp add: d)
qed

theorem nonpositive_concurrency_counterexample:
  "clusterConcurrency (flag_Parse nonpositive_cl) = 0 \<and>
   machineConcurrency (flag_Parse nonpositive_cl) = - 1 \<and>
   fst (main ok_env nonpositive_cl) = Returned \<and>
   MaxConcurrentReconciles (snd (controllers (snd (main ok_env nonpositive_cl)) ! 0)) = 0 \<and>
   MaxConcurrentReconciles (snd (controllers (snd (main ok_env nonpositive_cl)) ! 1)) = - 1"
  by (simp add: main_ok_env start_fields flags_nonpositive_cl boot_state_full_reconcilers
      concurrency_def)

text \<open>
  C7. Every failing library call is fatal. If any call of a run returned an error, the
  process exited with status 1, that call was the last one made, and the last log line is
  the error line of its stage: "unable to start manager", "unable to create ready check",
  "unable to create health check", "unable to create controller" with the controller's
  name, "unable to create webhook" with the type's name ("problem running manager" for
  \<open>mgr.Start\<close> itself). No call is made twice, so nothing is retried. And a run reaches
  \<open>mgr.Start\<close> only after every call before it succeeded: the manager is built, both checks
  are registered, and all five controllers or all thirteen webhooks are.
\<close>

theorem boot_errors_fatal:
  "(\<forall>c e. (c, Some e) \<in> set (trace (snd (main env cl))) \<longrightarrow>
      fst (main env cl) = Exit 1 \<and> last (trace (snd (main env cl))) = (c, Some e) \<and>
      last (logged (snd (main env cl))) = error_line c e) \<and>
   distinct (map fst (trace (snd (main env cl)))) \<and>
   (reached_Start (snd (main env cl)) \<longrightarrow>
      (\<forall>x \<in> set (butlast (trace (snd (main env cl)))). snd x = None) \<and>
      manager (snd (main env cl)) = Some (manager_Options env (flag_Parse cl)) \<and>
      readyzChecks (snd (main env cl)) = [(''ping'', Ping)] \<and>
      healthzChecks (snd (main env cl)) = [(''ping'', Ping)] \<and>
      (if webhookPort (flag_Parse cl) = 0 then length (controllers (snd (main env cl))) = 5
       else length (webhooks (snd (main env cl))) = 13))"
proof -
  have "(\<forall>x \<in> set (butlast (trace (snd (main env cl)))). snd x = None) \<and>
      manager (snd (main env cl)) = Some (manager_Options env (flag_Parse cl)) \<and>
      readyzChecks (snd (main env cl)) = [(''ping'', Ping)] \<and>
      healthzChecks (snd (main env cl)) = [(''ping'', Ping)] \<and>
      (if webhookPort (flag_Parse cl) = 0 then length (controllers (snd (main env cl))) = 5
       else length (webhooks (snd (main env cl))) = 13)"
    if st: "reached_Start (snd (main env cl))"
  proof (cases "webhookPort (flag_Parse cl) = 0")
    case True
    then show ?thesis
      using started_all_succeeded [OF st] started_registrations [OF st]
        boot_state_full_manager [of env "flag_Parse cl"]
        boot_state_full_reconcilers(1) [OF True, of env]
      by simp
  next
    case False
    then show ?thesis
      using started_all_succeeded [OF st] started_registrations [OF st]
        boot_state_full_manager [of env "flag_Parse cl"]
        boot_state_full_webhooks(1) [OF False, of env]
      by simp
  qed
  then show ?thesis
    using failure_is_fatal [of env cl] no_retry [of env cl] by blast
qed

theorem boot_errors_fatal_witness:
  "(Call_AddHealthzCheck ''ping'' Ping, Some (Err ''already started''))
     \<in> set (trace (snd (main healthz_fails_env no_flags))) \<and>
   fst (main healthz_fails_env no_flags) = Exit 1 \<and>
   last (logged (snd (main healthz_fails_env no_flags))) =
     Log_Error (Err ''already started'') ''unable to create health check'' [] \<and>
   reached_Start (snd (main ok_env no_flags)) \<and>
   length (controllers (snd (main ok_env no_flags))) = 5"
proof -
  have a: "(Call_AddHealthzCheck ''ping'' Ping, Some (Err ''already started''))
     \<in> set (trace (snd (main healthz_fails_env no_flags)))"
    by (simp add: healthz_fails_run)
  have b: "reached_Start (snd (main ok_env no_flags))"
    by (simp add: main_ok_env reached_Start_ok)
  show ?thesis
    using a b boot_errors_fatal [of healthz_fails_env no_flags]
      boot_errors_fatal [of ok_env no_flags]
    by (auto simp: flags_no_flags)
qed

section \<open>The profiler and the leader-election lock\<close>

text \<open>
  C9. In every run the profiler goroutine has been started exactly when the profiler address
  is not empty. Its body never ends the process and writes nothing but Info lines. And
  \<open>main\<close> does not depend on what \<open>http.ListenAndServe\<close> does: with any other behaviour of
  the endpoint, \<open>main\<close> ends in the same way and in the same state, so an error of the
  endpoint neither makes it exit nor holds it up. (How the goroutine's log line interleaves
  with the lines of \<open>main\<close> is not part of the model.)
\<close>

theorem profiler_detached:
  "goroutines (snd (main env cl)) =
     (if profilerAddress (flag_Parse cl) = '''' then []
      else [Profiler (profilerAddress (flag_Parse cl))]) \<and>
   fst (run_goroutine env g) = None \<and>
   (\<forall>l \<in> set (snd (run_goroutine env g)). \<exists>m. l = Klog_Info m) \<and>
   main (env\<lparr>ListenAndServe := h\<rparr>) cl = main env cl"
proof -
  have "fst (run_goroutine env g) = None \<and>
      (\<forall>l \<in> set (snd (run_goroutine env g)). \<exists>m. l = Klog_Info m)"
    by (cases g) (auto split: option.splits error.splits)
  then show ?thesis
    by (simp add: goroutines_main main_ignores_ListenAndServe profiled_def initial_def)
qed

theorem profiler_detached_witness:
  "goroutines (snd (main port_taken_env profiler_cl)) = [Profiler ''localhost:6060''] \<and>
   run_goroutine port_taken_env (Profiler ''localhost:6060'') =
     (None, [Klog_Info ''bind: address already in use'']) \<and>
   main port_taken_env profiler_cl = main ok_env profiler_cl \<and>
   fst (main port_taken_env profiler_cl) = Returned"
proof -
  have g: "goroutines (snd (main port_taken_env profiler_cl)) = [Profiler ''localhost:6060'']"
    using profiler_detached [of port_taken_env profiler_cl "Profiler ''localhost:6060''"
        "\<lambda>addr. None"]
    by (simp add: flags_profiler_cl)
  have r: "run_goroutine port_taken_env (Profiler ''localhost:6060'') =
      (None, [Klog_Info ''bind: address already in use''])"
    by (simp add: port_taken_env_def)
  have m: "main port_taken_env profiler_cl = main ok_env profiler_cl"
    using profiler_detached [of ok_env profiler_cl "Profiler ''localhost:6060''"
        "\<lambda>addr. Some (Err ''bind: address already in use'')"]
    by (simp add: port_taken_env_def)
  have e: "fst (main ok_env profiler_cl) = Returned"
    by (simp add: main_ok_env)
  show ?thesis
    using g r m e by simp
qed

text \<open>
  C10. The options that \<open>main\<close> builds have the leader-election id
  "controller-leader-election-capi" for every environment and all flags; every call of
  \<open>ctrl.NewManager\<close> in a run is made with these options, and a manager that exists was
  built with them.
\<close>

theorem leader_election_id_fixed:
  "LeaderElectionID (manager_Options env f) = ''controller-leader-election-capi'' \<and>
   (\<forall>config opts r. (Call_NewManager config opts, r) \<in> set (trace (snd (main env cl))) \<longrightarrow>
      LeaderElectionID opts = ''controller-leader-election-capi'') \<and>
   (\<forall>opts. manager (snd (main env cl)) = Some opts \<longrightarrow>
      LeaderElectionID opts = ''controller-leader-election-capi'')"
proof -
  have id: "LeaderElectionID (manager_Options env f) = ''controller-leader-election-capi''" for f
    by (simp add: manager_Options_def)
  have "LeaderElectionID opts = ''controller-leader-election-capi''"
    if "(Call_NewManager config opts, r) \<in> set (trace (snd (main env cl)))" for config opts r
  proof -
    from leader_election_invariant [of env cl] that
    have "opts = manager_Options env (flag_Parse cl)" by blast
    then show ?thesis by (simp only: id)
  qed
  moreover have "LeaderElectionID opts = ''controller-leader-election-capi''"
    if "manager (snd (main env cl)) = Some opts" for opts
  proof -
    from leader_election_invariant [of env cl] that
    have "opts = manager_Options env (flag_Parse cl)" by blast
    then show ?thesis by (simp only: id)
  qed
  ultimately show ?thesis
    using id [of f] by blast
qed

theorem leader_election_id_fixed_witness:
  "manager (snd (main ok_env leader_cl)) = Some (manager_Options ok_env (flag_Parse leader_cl)) \<and>
   LeaderElection (manager_Options ok_env (flag_Parse leader_cl)) = True \<and>
   LeaderElectionID (manager_Options ok_env (flag_Parse leader_cl)) =
     ''controller-leader-election-capi''"
proof -
  have a: "manager (snd (main ok_env leader_cl)) =
      Some (manager_Options ok_env (flag_Parse leader_cl))"
    by (simp add: main_ok_env start_fields boot_state_full_manager)
  have b: "LeaderElection (manager_Options ok_env (flag_Parse leader_cl)) = True"
    by (simp add: manager_Options_def flag_Parse_def leader_cl_def no_flags_def flag_Var_def)
  show ?thesis
    using a b leader_election_id_fixed [of ok_env "flag_Parse leader_cl" leader_cl]
    by simp
qed

end
